theory Spec2Isabelle
  imports Main "HOL-Library.AList"
begin

section \<open>Values\<close>

text \<open>
  The state of a project travels as Python dictionaries and JSON documents.  A dictionary is
  an association list in insertion order: \<open>d[k] = v\<close> is \<^const>\<open>AList.update\<close> (an existing key
  keeps its place, a new key goes to the end) and \<open>d.get(k)\<close> is \<^const>\<open>map_of\<close>.
\<close>

datatype json =
    JNull
  | JInt int
  | JStr string
  | JList "json list"
  | JObj "(string \<times> json) list"

type_synonym dict = "(string \<times> json) list"

text \<open>
  A reading of \<open>datetime.now()\<close>: the instant in microseconds since the epoch, with the text
  that \<open>isoformat()\<close> gives for it.
\<close>

datatype datetime = DateTime (micros: int) (isoformat: string)

text \<open>\<open>int(d.timestamp())\<close>: whole seconds, truncated towards zero.\<close>

definition int_timestamp :: "datetime \<Rightarrow> int" where
  "int_timestamp d =
     (if 0 \<le> micros d then micros d div 1000000 else - ((- micros d) div 1000000))"

text \<open>Decimal text of a number, as an f-string prints it.\<close>

fun str_nat :: "nat \<Rightarrow> string" where
  "str_nat n =
     (if n < 10 then [''0123456789'' ! n]
      else str_nat (n div 10) @ [''0123456789'' ! (n mod 10)])"

declare str_nat.simps [simp del]

definition str_int :: "int \<Rightarrow> string" where
  "str_int i = (if i < 0 then CHR ''-'' # str_nat (nat (- i)) else str_nat (nat i))"

text \<open>\<open>s.split(c)\<close> for a separator of one character.\<close>

fun split :: "char \<Rightarrow> string \<Rightarrow> string list" where
  "split c [] = [[]]"
| "split c (x # xs) =
     (if x = c then [] # split c xs
      else (case split c xs of
              w # ws \<Rightarrow> (x # w) # ws
            | [] \<Rightarrow> [[x]]))"

section \<open>Exceptions\<close>

datatype exn =
    HTTPException nat string
  | ValueError string
  | Exception string

text \<open>\<open>str(e)\<close>.\<close>

fun exn_str :: "exn \<Rightarrow> string" where
  "exn_str (HTTPException code detail) = str_nat code @ '': '' @ detail"
| "exn_str (ValueError m) = m"
| "exn_str (Exception m) = m"

definition and_then :: "exn + 'a \<Rightarrow> ('a \<Rightarrow> exn + 'b) \<Rightarrow> exn + 'b" where
  "and_then r f = (case r of Inl e \<Rightarrow> Inl e | Inr x \<Rightarrow> f x)"

section \<open>The data model\<close>

record ProjectState =
  project_id :: string
  requirements :: string
  status :: string
  current_phase :: string
  tasks :: "dict list"
  errors :: "string list"
  ctx :: dict
  metadata :: dict

text \<open>
  The field \<open>ctx\<close> is the source's \<open>context\<close>, a word the theory language reserves.
\<close>

record WorkflowRequest =
  req_project_id :: string
  req_requirements :: string
  req_project_type :: string
  req_priority :: string
  req_deadline :: "datetime option"
  req_context :: "dict option"

record WorkflowResponse =
  resp_workflow_id :: string
  resp_status :: string
  resp_state :: ProjectState
  resp_next_steps :: "string list"

section \<open>The language model\<close>

datatype llm = ChatOpenAI string | ChatAnthropic string

definition get_llm :: "string \<Rightarrow> string \<Rightarrow> exn + llm" where
  "get_llm provider model =
     (if provider = ''openai'' then Inr (ChatOpenAI model)
      else if provider = ''anthropic'' then Inr (ChatAnthropic model)
      else Inl (ValueError (''Unsupported provider: '' @ provider)))"

text \<open>
  What \<open>await llm.ainvoke(prompt)\<close> does is decided outside the program: it raises, with the
  text of the exception, or it answers.  The stages take that outcome as an argument.
\<close>

datatype llm_outcome = Raises string | Responds string

section \<open>The stages\<close>

definition analysis_of :: "string \<Rightarrow> dict" where
  "analysis_of reqs =
     [(''complexity'', JInt 7),
      (''technologies'', JList [JStr ''React'', JStr ''Node.js'', JStr ''MongoDB'']),
      (''features'', JList (map JStr (split CHR ''.'' reqs))),
      (''challenges'', JList [JStr ''User authentication'', JStr ''Real-time updates'']),
      (''estimated_hours'', JInt 160)]"

definition analyze_requirements :: "llm_outcome \<Rightarrow> ProjectState \<Rightarrow> exn + ProjectState" where
  "analyze_requirements outcome state =
     (case get_llm ''openai'' ''gpt-4'' of
        Inl e \<Rightarrow> Inl e
      | Inr client \<Rightarrow>
          (case outcome of
             Responds response \<Rightarrow>
               Inr (state\<lparr>ctx := AList.update ''analysis'' (JObj (analysis_of (requirements state)))
                                  (ctx state),
                          status := ''analyzed'',
                          current_phase := ''planning''\<rparr>)
           | Raises e \<Rightarrow>
               Inr (state\<lparr>errors := errors state @ [''Analysis failed: '' @ e],
                          status := ''failed''\<rparr>)))"

definition sample_plan :: dict where
  "sample_plan =
     [(''phases'', JList
         [JObj [(''name'', JStr ''Setup''), (''duration'', JStr ''1 week''), (''tasks'', JInt 3)],
          JObj [(''name'', JStr ''Development''), (''duration'', JStr ''4 weeks''),
                (''tasks'', JInt 12)],
          JObj [(''name'', JStr ''Testing''), (''duration'', JStr ''2 weeks''), (''tasks'', JInt 6)],
          JObj [(''name'', JStr ''Deployment''), (''duration'', JStr ''1 week''),
                (''tasks'', JInt 2)]]),
      (''total_tasks'', JInt 23),
      (''estimated_duration'', JStr ''8 weeks'')]"

definition sample_task :: "nat \<Rightarrow> dict" where
  "sample_task i =
     [(''id'', JStr (''task_'' @ str_nat (i + 1))),
      (''title'', JStr (''Implement feature '' @ str_nat (i + 1))),
      (''type'', JStr ''code''),
      (''priority'', JStr ''medium''),
      (''status'', JStr ''pending''),
      (''estimated_hours'', JInt 8)]"

definition create_plan :: "llm_outcome \<Rightarrow> ProjectState \<Rightarrow> exn + ProjectState" where
  "create_plan outcome state =
     (if status state = ''failed'' then Inr state
      else
        (case get_llm ''openai'' ''gpt-4'' of
           Inl e \<Rightarrow> Inl e
         | Inr client \<Rightarrow>
             (case outcome of
                Responds response \<Rightarrow>
                  Inr (state\<lparr>tasks := map sample_task [0 ..< 5],
                             ctx := AList.update ''plan'' (JObj sample_plan) (ctx state),
                             status := ''planned'',
                             current_phase := ''development''\<rparr>)
              | Raises e \<Rightarrow>
                  Inr (state\<lparr>errors := errors state @ [''Planning failed: '' @ e],
                             status := ''failed''\<rparr>))))"

text \<open>
  The loop of \<open>execute_tasks\<close>, from \<open>executed_tasks = n\<close> over the tasks still to visit.  It
  returns the counter, the tasks as the loop left them (it updates them in place), and the key
  of the \<open>KeyError\<close> when \<open>task["status"]\<close> found none.
\<close>

fun assign_pending :: "nat \<Rightarrow> dict list \<Rightarrow> nat \<times> dict list \<times> string option" where
  "assign_pending n [] = (n, [], None)"
| "assign_pending n (task # rest) =
     (case map_of task ''status'' of
        None \<Rightarrow> (n, task # rest, Some ''status'')
      | Some st \<Rightarrow>
          if st = JStr ''pending'' then
            (let task' = AList.update ''assigned_agent'' (JStr (''agent_'' @ str_nat (n mod 3 + 1)))
                           (AList.update ''status'' (JStr ''assigned'') task);
                 n' = n + 1
             in if n' \<ge> 2 then (n', task' # rest, None)
                else (case assign_pending n' rest of
                        (m, rest', err) \<Rightarrow> (m, task' # rest', err)))
          else (case assign_pending n rest of
                  (m, rest', err) \<Rightarrow> (m, task # rest', err)))"

definition execute_tasks :: "datetime \<Rightarrow> ProjectState \<Rightarrow> exn + ProjectState" where
  "execute_tasks now state =
     (if status state = ''failed'' then Inr state
      else
        (case assign_pending 0 (tasks state) of
           (executed_tasks, tasks', None) \<Rightarrow>
             Inr (state\<lparr>tasks := tasks',
                        ctx := AList.update ''execution''
                                 (JObj [(''tasks_assigned'', JInt (int executed_tasks)),
                                        (''agents_used'', JInt (int (min 3 executed_tasks))),
                                        (''start_time'', JStr (isoformat now))])
                                 (ctx state),
                        status := ''executing'',
                        current_phase := ''development''\<rparr>)
         | (executed_tasks, tasks', Some key) \<Rightarrow>
             Inr (state\<lparr>tasks := tasks',
                        errors := errors state
                                  @ [''Execution failed: '' @ [CHR 0x27] @ key @ [CHR 0x27]],
                        status := ''failed''\<rparr>)))"

section \<open>The graph\<close>

text \<open>
  \<open>create_project_workflow\<close> adds the nodes \<open>analyze\<close>, \<open>plan\<close> and \<open>execute\<close>, enters at
  \<open>analyze\<close> and has the edges \<open>analyze \<rightarrow> plan \<rightarrow> execute \<rightarrow> END\<close>.  What a pass needs from
  outside is the outcome of the two calls to the language model and the clock.
\<close>

datatype node = Analyze | Plan | Execute

record pass_env =
  analyzer :: llm_outcome
  planner :: llm_outcome
  exec_clock :: datetime

fun run_node :: "pass_env \<Rightarrow> node \<Rightarrow> ProjectState \<Rightarrow> exn + ProjectState" where
  "run_node env Analyze state = analyze_requirements (analyzer env) state"
| "run_node env Plan state = create_plan (planner env) state"
| "run_node env Execute state = execute_tasks (exec_clock env) state"

definition ainvoke :: "pass_env \<Rightarrow> ProjectState \<Rightarrow> exn + ProjectState" where
  "ainvoke env state =
     and_then (run_node env Analyze state) (\<lambda>s1.
     and_then (run_node env Plan s1) (\<lambda>s2.
     run_node env Execute s2))"

section \<open>The checkpoint store\<close>

text \<open>
  Two tiers.  The fast tier is the Redis key space: under a key, a value and the second of the
  server's clock at which it expires.  The value is the state itself: what \<open>json.dumps\<close> wrote,
  \<open>json.loads\<close> reads back.  The durable tier is the \<open>workflows\<close> collection: the documents in
  insertion order.  Nothing in the program makes \<open>workflow_id\<close> unique in the collection.
\<close>

datatype oid = ObjectId string | OidStr string

fun str_oid :: "oid \<Rightarrow> oid" where
  "str_oid (ObjectId hex) = OidStr hex"
| "str_oid (OidStr s) = OidStr s"

record workflow_doc =
  doc_oid :: oid
  doc_workflow_id :: string
  doc_project_id :: string
  doc_state :: ProjectState
  created_at :: datetime
  updated_at :: datetime

record store =
  redis :: "(string \<times> ProjectState \<times> int) list"
  mongo :: "workflow_doc list"

text \<open>
  What one request meets outside the program: the language model and the clock of its pass
  through the graph, the readings of \<open>datetime.now()\<close> in the order the endpoint takes them, the
  Redis server's clock in seconds, the identifier MongoDB gives an inserted document, and
  whether a tier is failing (with the text of the exception its driver raises).
\<close>

record env =
  pass :: pass_env
  now_metadata :: datetime
  now_workflow_id :: datetime
  now_created :: datetime
  now_updated :: datetime
  redis_now :: int
  new_oid :: string
  redis_fault :: "string option"
  mongo_read_fault :: "string option"
  mongo_write_fault :: "string option"

definition redis_setex :: "env \<Rightarrow> string \<Rightarrow> int \<Rightarrow> ProjectState \<Rightarrow> store \<Rightarrow> exn + store" where
  "redis_setex e key ttl v st =
     (case redis_fault e of
        Some m \<Rightarrow> Inl (Exception m)
      | None \<Rightarrow> Inr (st\<lparr>redis := AList.update key (v, redis_now e + ttl) (redis st)\<rparr>))"

definition redis_get :: "env \<Rightarrow> string \<Rightarrow> store \<Rightarrow> exn + ProjectState option" where
  "redis_get e key st =
     (case redis_fault e of
        Some m \<Rightarrow> Inl (Exception m)
      | None \<Rightarrow>
          Inr (case map_of (redis st) key of
                 None \<Rightarrow> None
               | Some (v, expires) \<Rightarrow> if redis_now e < expires then Some v else None))"

definition insert_one :: "env \<Rightarrow> workflow_doc \<Rightarrow> store \<Rightarrow> exn + store" where
  "insert_one e doc st =
     (case mongo_write_fault e of
        Some m \<Rightarrow> Inl (Exception m)
      | None \<Rightarrow> Inr (st\<lparr>mongo := mongo st @ [doc]\<rparr>))"

definition find_one :: "env \<Rightarrow> string \<Rightarrow> store \<Rightarrow> exn + workflow_doc option" where
  "find_one e wid st =
     (case mongo_read_fault e of
        Some m \<Rightarrow> Inl (Exception m)
      | None \<Rightarrow> Inr (find (\<lambda>d. doc_workflow_id d = wid) (mongo st)))"

fun update_first :: "('a \<Rightarrow> bool) \<Rightarrow> ('a \<Rightarrow> 'a) \<Rightarrow> 'a list \<Rightarrow> 'a list" where
  "update_first P f [] = []"
| "update_first P f (x # xs) = (if P x then f x # xs else x # update_first P f xs)"

definition update_one :: "env \<Rightarrow> string \<Rightarrow> ProjectState \<Rightarrow> datetime \<Rightarrow> store \<Rightarrow> exn + store" where
  "update_one e wid v t st =
     (case mongo_write_fault e of
        Some m \<Rightarrow> Inl (Exception m)
      | None \<Rightarrow>
          Inr (st\<lparr>mongo := update_first (\<lambda>d. doc_workflow_id d = wid)
                              (\<lambda>d. d\<lparr>doc_state := v, updated_at := t\<rparr>) (mongo st)\<rparr>))"

definition count_documents :: "env \<Rightarrow> store \<Rightarrow> exn + nat" where
  "count_documents e st =
     (case mongo_read_fault e of
        Some m \<Rightarrow> Inl (Exception m)
      | None \<Rightarrow> Inr (length (mongo st)))"

text \<open>
  The cursor \<open>find().sort("created_at", -1).skip(offset).limit(limit)\<close> read with
  \<open>to_list(length=limit)\<close>.  The driver refuses a negative \<open>skip\<close> and a negative \<open>length\<close> with
  a \<open>ValueError\<close>; a limit of 0 on the cursor means no limit, and \<open>to_list\<close> stops at \<open>length\<close>
  documents.
\<close>

definition cursor_limit :: "int \<Rightarrow> 'a list \<Rightarrow> 'a list" where
  "cursor_limit l xs = (if l = 0 then xs else take (nat \<bar>l\<bar>) xs)"

definition find_sorted :: "env \<Rightarrow> int \<Rightarrow> int \<Rightarrow> store \<Rightarrow> exn + workflow_doc list" where
  "find_sorted e offset limit st =
     (if offset < 0 then Inl (ValueError ''skip must be >= 0'')
      else if limit < 0 then Inl (ValueError ''length must be non-negative'')
      else
        (case mongo_read_fault e of
           Some m \<Rightarrow> Inl (Exception m)
         | None \<Rightarrow>
             Inr (take (nat limit)
                    (cursor_limit limit
                       (drop (nat offset)
                          (sort_key (\<lambda>d. - micros (created_at d)) (mongo st)))))))"

section \<open>The endpoints\<close>

definition initial_state :: "env \<Rightarrow> WorkflowRequest \<Rightarrow> ProjectState" where
  "initial_state e request =
     \<lparr>project_id = req_project_id request,
      requirements = req_requirements request,
      status = ''draft'',
      current_phase = ''analyzing'',
      tasks = [],
      errors = [],
      ctx = (case req_context request of None \<Rightarrow> [] | Some c \<Rightarrow> c),
      metadata =
        [(''project_type'', JStr (req_project_type request)),
         (''priority'', JStr (req_priority request)),
         (''deadline'', (case req_deadline request of
                           None \<Rightarrow> JNull
                         | Some d \<Rightarrow> JStr (isoformat d))),
         (''created_at'', JStr (isoformat (now_metadata e)))]\<rparr>"

definition make_workflow_id :: "env \<Rightarrow> WorkflowRequest \<Rightarrow> string" where
  "make_workflow_id e request =
     ''workflow_'' @ req_project_id request @ ''_'' @ str_int (int_timestamp (now_workflow_id e))"

definition next_steps_for :: "ProjectState \<Rightarrow> string list" where
  "next_steps_for result =
     (if status result = ''executing''
        then [''Monitor task execution'', ''Assign agents to pending tasks'']
      else if status result = ''failed''
        then [''Review errors'', ''Retry failed steps'']
      else [''Continue to next phase''])"

definition start_workflow :: "env \<Rightarrow> WorkflowRequest \<Rightarrow> store \<Rightarrow> store \<times> (exn + WorkflowResponse)" where
  "start_workflow e request st =
     (let failed = (\<lambda>x. Inl (HTTPException 500 (''Workflow failed: '' @ exn_str x))) in
      case ainvoke (pass e) (initial_state e request) of
        Inl x \<Rightarrow> (st, failed x)
      | Inr result \<Rightarrow>
          (let workflow_id = make_workflow_id e request in
           case redis_setex e workflow_id 3600 result st of
             Inl x \<Rightarrow> (st, failed x)
           | Inr st1 \<Rightarrow>
               (case insert_one e
                       \<lparr>doc_oid = ObjectId (new_oid e),
                        doc_workflow_id = workflow_id,
                        doc_project_id = req_project_id request,
                        doc_state = result,
                        created_at = now_created e,
                        updated_at = now_updated e\<rparr> st1 of
                  Inl x \<Rightarrow> (st1, failed x)
                | Inr st2 \<Rightarrow>
                    (st2, Inr \<lparr>resp_workflow_id = workflow_id,
                               resp_status = status result,
                               resp_state = result,
                               resp_next_steps = next_steps_for result\<rparr>))))"

definition get_workflow_status :: "env \<Rightarrow> string \<Rightarrow> store \<Rightarrow> store \<times> (exn + ProjectState)" where
  "get_workflow_status e workflow_id st =
     (let failed = (\<lambda>x. Inl (HTTPException 500 (''Error retrieving workflow: '' @ exn_str x))) in
      case redis_get e workflow_id st of
        Inl x \<Rightarrow> (st, failed x)
      | Inr (Some cached_state) \<Rightarrow> (st, Inr cached_state)
      | Inr None \<Rightarrow>
          (case find_one e workflow_id st of
             Inl x \<Rightarrow> (st, failed x)
           | Inr (Some workflow_doc) \<Rightarrow> (st, Inr (doc_state workflow_doc))
           | Inr None \<Rightarrow> (st, Inl (HTTPException 404 ''Workflow not found''))))"

definition continue_workflow :: "env \<Rightarrow> string \<Rightarrow> store \<Rightarrow> store \<times> (exn + string \<times> ProjectState)" where
  "continue_workflow e workflow_id st =
     (let failed = (\<lambda>x. Inl (HTTPException 500 (''Error continuing workflow: '' @ exn_str x))) in
      case find_one e workflow_id st of
        Inl x \<Rightarrow> (st, failed x)
      | Inr None \<Rightarrow> (st, Inl (HTTPException 404 ''Workflow not found''))
      | Inr (Some workflow_doc) \<Rightarrow>
          (case ainvoke (pass e) (doc_state workflow_doc) of
             Inl x \<Rightarrow> (st, failed x)
           | Inr result \<Rightarrow>
               (case update_one e workflow_id result (now_updated e) st of
                  Inl x \<Rightarrow> (st, failed x)
                | Inr st1 \<Rightarrow>
                    (case redis_setex e workflow_id 3600 result st1 of
                       Inl x \<Rightarrow> (st1, failed x)
                     | Inr st2 \<Rightarrow> (st2, Inr (''continued'', result))))))"

record listing =
  workflows :: "workflow_doc list"
  total :: nat
  listing_offset :: int
  listing_limit :: int

definition list_workflows :: "env \<Rightarrow> int \<Rightarrow> int \<Rightarrow> store \<Rightarrow> exn + listing" where
  "list_workflows e limit offset st =
     (let failed = (\<lambda>x. Inl (HTTPException 500 (''Error listing workflows: '' @ exn_str x))) in
      case find_sorted e offset limit st of
        Inl x \<Rightarrow> failed x
      | Inr found \<Rightarrow>
          (case count_documents e st of
             Inl x \<Rightarrow> failed x
           | Inr n \<Rightarrow>
               Inr \<lparr>workflows = map (\<lambda>d. d\<lparr>doc_oid := str_oid (doc_oid d)\<rparr>) found,
                    total = n,
                    listing_offset = offset,
                    listing_limit = limit\<rparr>))"

section \<open>Values the statements name\<close>

text \<open>
  The five tasks \<open>create_plan\<close> generates, and the same tasks after one call of
  \<open>execute_tasks\<close>.
\<close>

definition planned_tasks :: "dict list" where
  "planned_tasks =
     [[(''id'', JStr ''task_1''), (''title'', JStr ''Implement feature 1''),
       (''type'', JStr ''code''), (''priority'', JStr ''medium''),
       (''status'', JStr ''pending''), (''estimated_hours'', JInt 8)],
      [(''id'', JStr ''task_2''), (''title'', JStr ''Implement feature 2''),
       (''type'', JStr ''code''), (''priority'', JStr ''medium''),
       (''status'', JStr ''pending''), (''estimated_hours'', JInt 8)],
      [(''id'', JStr ''task_3''), (''title'', JStr ''Implement feature 3''),
       (''type'', JStr ''code''), (''priority'', JStr ''medium''),
       (''status'', JStr ''pending''), (''estimated_hours'', JInt 8)],
      [(''id'', JStr ''task_4''), (''title'', JStr ''Implement feature 4''),
       (''type'', JStr ''code''), (''priority'', JStr ''medium''),
       (''status'', JStr ''pending''), (''estimated_hours'', JInt 8)],
      [(''id'', JStr ''task_5''), (''title'', JStr ''Implement feature 5''),
       (''type'', JStr ''code''), (''priority'', JStr ''medium''),
       (''status'', JStr ''pending''), (''estimated_hours'', JInt 8)]]"

definition dispatched_tasks :: "dict list" where
  "dispatched_tasks =
     [[(''id'', JStr ''task_1''), (''title'', JStr ''Implement feature 1''),
       (''type'', JStr ''code''), (''priority'', JStr ''medium''),
       (''status'', JStr ''assigned''), (''estimated_hours'', JInt 8),
       (''assigned_agent'', JStr ''agent_1'')],
      [(''id'', JStr ''task_2''), (''title'', JStr ''Implement feature 2''),
       (''type'', JStr ''code''), (''priority'', JStr ''medium''),
       (''status'', JStr ''assigned''), (''estimated_hours'', JInt 8),
       (''assigned_agent'', JStr ''agent_2'')],
      [(''id'', JStr ''task_3''), (''title'', JStr ''Implement feature 3''),
       (''type'', JStr ''code''), (''priority'', JStr ''medium''),
       (''status'', JStr ''pending''), (''estimated_hours'', JInt 8)],
      [(''id'', JStr ''task_4''), (''title'', JStr ''Implement feature 4''),
       (''type'', JStr ''code''), (''priority'', JStr ''medium''),
       (''status'', JStr ''pending''), (''estimated_hours'', JInt 8)],
      [(''id'', JStr ''task_5''), (''title'', JStr ''Implement feature 5''),
       (''type'', JStr ''code''), (''priority'', JStr ''medium''),
       (''status'', JStr ''pending''), (''estimated_hours'', JInt 8)]]"



text \<open>A request, a clock reading, and a world in which both models answer and both tiers work.\<close>

definition clock0 :: datetime where
  "clock0 = DateTime 1700000000000000 ''2023-11-14T22:13:20''"

definition login_request :: WorkflowRequest where
  "login_request =
     \<lparr>req_project_id = ''p1'',
      req_requirements = ''Build a login page.'',
      req_project_type = ''web_application'',
      req_priority = ''medium'',
      req_deadline = None,
      req_context = None\<rparr>"

definition calm :: env where
  "calm =
     \<lparr>pass = \<lparr>analyzer = Responds ''{}'', planner = Responds ''{}'', exec_clock = clock0\<rparr>,
      now_metadata = clock0,
      now_workflow_id = clock0,
      now_created = clock0,
      now_updated = clock0,
      redis_now = 1700000000,
      new_oid = ''6553f100a1b2c3d4e5f60001'',
      redis_fault = None,
      mongo_read_fault = None,
      mongo_write_fault = None\<rparr>"

definition empty_store :: store where
  "empty_store = \<lparr>redis = [], mongo = []\<rparr>"

text \<open>
  The state a start leaves behind for \<open>login_request\<close> when the call to the language model in
  \<open>analyze_requirements\<close> raised \<open>timeout\<close>, and the durable record of that workflow.
\<close>

definition failed_state :: ProjectState where
  "failed_state =
     \<lparr>project_id = ''p1'',
      requirements = ''Build a login page.'',
      status = ''failed'',
      current_phase = ''analyzing'',
      tasks = [],
      errors = [''Analysis failed: timeout''],
      ctx = [],
      metadata =
        [(''project_type'', JStr ''web_application''),
         (''priority'', JStr ''medium''),
         (''deadline'', JNull),
         (''created_at'', JStr ''2023-11-14T22:13:20'')]\<rparr>"

definition failed_store :: store where
  "failed_store =
     \<lparr>redis = [],
      mongo = [\<lparr>doc_oid = ObjectId ''6553f100a1b2c3d4e5f60001'',
                doc_workflow_id = ''workflow_p1_1700000000'',
                doc_project_id = ''p1'',
                doc_state = failed_state,
                created_at = clock0,
                updated_at = clock0\<rparr>]\<rparr>"

text \<open>The same world, except that the call to the language model in the analyze stage raises.\<close>

definition analyzer_down :: env where
  "analyzer_down =
     calm\<lparr>pass := \<lparr>analyzer = Raises ''timeout'', planner = Responds ''{}'',
                    exec_clock = clock0\<rparr>\<rparr>"

text \<open>A later clock reading, and a durable tier with a second, later workflow.\<close>

definition clock1 :: datetime where
  "clock1 = DateTime 1700000060000000 ''2023-11-14T22:14:20''"

definition two_store :: store where
  "two_store =
     \<lparr>redis = [],
      mongo = [\<lparr>doc_oid = ObjectId ''6553f100a1b2c3d4e5f60001'',
                doc_workflow_id = ''workflow_p1_1700000000'',
                doc_project_id = ''p1'',
                doc_state = failed_state,
                created_at = clock0,
                updated_at = clock0\<rparr>,
               \<lparr>doc_oid = ObjectId ''6553f13ca1b2c3d4e5f60002'',
                doc_workflow_id = ''workflow_p2_1700000060'',
                doc_project_id = ''p2'',
                doc_state = failed_state\<lparr>project_id := ''p2''\<rparr>,
                created_at = clock1,
                updated_at = clock1\<rparr>]\<rparr>"

section \<open>Facts about the stages\<close>

lemma get_llm_default: "get_llm ''openai'' ''gpt-4'' = Inr (ChatOpenAI ''gpt-4'')"
  by (simp add: get_llm_def)

lemma create_plan_failed: "status s = ''failed'' \<Longrightarrow> create_plan out s = Inr s"
  by (simp add: create_plan_def)

lemma execute_tasks_failed: "status s = ''failed'' \<Longrightarrow> execute_tasks t s = Inr s"
  by (simp add: execute_tasks_def)

lemma analyze_responds:
  "analyze_requirements (Responds r) s =
     Inr (s\<lparr>ctx := AList.update ''analysis'' (JObj (analysis_of (requirements s))) (ctx s),
            status := ''analyzed'', current_phase := ''planning''\<rparr>)"
  by (simp add: analyze_requirements_def get_llm_default)

lemma analyze_raises:
  "analyze_requirements (Raises m) s =
     Inr (s\<lparr>errors := errors s @ [''Analysis failed: '' @ m], status := ''failed''\<rparr>)"
  by (simp add: analyze_requirements_def get_llm_default)

lemma create_plan_responds:
  "status s \<noteq> ''failed'' \<Longrightarrow> create_plan (Responds r) s =
     Inr (s\<lparr>tasks := map sample_task [0 ..< 5],
            ctx := AList.update ''plan'' (JObj sample_plan) (ctx s),
            status := ''planned'', current_phase := ''development''\<rparr>)"
  by (simp add: create_plan_def get_llm_default)

lemma create_plan_raises:
  "status s \<noteq> ''failed'' \<Longrightarrow> create_plan (Raises m) s =
     Inr (s\<lparr>errors := errors s @ [''Planning failed: '' @ m], status := ''failed''\<rparr>)"
  by (simp add: create_plan_def get_llm_default)

lemma sample_tasks_value: "map sample_task [0 ..< 5] = planned_tasks"
  by code_simp

lemma assign_planned_tasks: "assign_pending 0 planned_tasks = (2, dispatched_tasks, None)"
  by code_simp

text \<open>The loop stops at the second assignment: from 0 it never counts past 2.\<close>

lemma assign_pending_max: "fst (assign_pending n ts) \<le> max (n + 1) 2"
proof (induction n ts rule: assign_pending.induct)
  case (1 n)
  then show ?case by simp
next
  case (2 n task rest)
  show ?case
  proof (cases "map_of task ''status''")
    case None
    then show ?thesis by simp
  next
    case (Some st)
    show ?thesis
    proof (cases "st = JStr ''pending''")
      case True
      show ?thesis
      proof (cases "n + 1 \<ge> 2")
        case True
        with Some \<open>st = JStr ''pending''\<close> show ?thesis by (simp add: Let_def)
      next
        case False
        then have n0: "n = 0" by simp
        from "2.IH"(1)[OF Some True refl refl False]
        have "fst (assign_pending (n + 1) rest) \<le> max (n + 1 + 1) 2" .
        with Some True False n0 show ?thesis
          by (auto simp: Let_def split: prod.splits)
      qed
    next
      case False
      from "2.IH"(2)[OF Some False]
      have "fst (assign_pending n rest) \<le> max (n + 1) 2" .
      with Some False show ?thesis by (auto split: prod.splits)
    qed
  qed
qed

lemma assign_pending_bound: "fst (assign_pending 0 ts) \<le> 2"
  using assign_pending_max [of 0 ts] by simp

text \<open>No stage raises: each returns a state, whatever the language model did.\<close>

lemma analyze_total: "\<exists>s'. analyze_requirements out s = Inr s'"
  by (cases out) (simp_all add: analyze_raises analyze_responds)

lemma create_plan_total: "\<exists>s'. create_plan out s = Inr s'"
  by (cases out; cases "status s = ''failed''")
     (simp_all add: create_plan_failed create_plan_raises create_plan_responds)

lemma execute_total: "\<exists>s'. execute_tasks t s = Inr s'"
  by (auto simp: execute_tasks_def split: prod.splits option.splits)

lemma ainvoke_total: "\<exists>s'. ainvoke p s = Inr s'"
proof -
  obtain s1 where 1: "analyze_requirements (analyzer p) s = Inr s1"
    using analyze_total by blast
  obtain s2 where 2: "create_plan (planner p) s1 = Inr s2"
    using create_plan_total by blast
  obtain s3 where 3: "execute_tasks (exec_clock p) s2 = Inr s3"
    using execute_total by blast
  show ?thesis
    by (simp add: ainvoke_def and_then_def 1 2 3)
qed

lemma ainvoke_responds:
  "ainvoke \<lparr>analyzer = Responds a, planner = Responds p, exec_clock = t\<rparr> s =
     Inr (s\<lparr>tasks := dispatched_tasks,
            ctx := AList.update ''execution''
                     (JObj [(''tasks_assigned'', JInt 2), (''agents_used'', JInt 2),
                            (''start_time'', JStr (isoformat t))])
                     (AList.update ''plan'' (JObj sample_plan)
                        (AList.update ''analysis'' (JObj (analysis_of (requirements s))) (ctx s))),
            status := ''executing'',
            current_phase := ''development''\<rparr>)"
  by (simp add: ainvoke_def and_then_def analyze_responds create_plan_responds
        execute_tasks_def sample_tasks_value assign_planned_tasks)

lemma ainvoke_analyzer_raises:
  "ainvoke \<lparr>analyzer = Raises m, planner = pl, exec_clock = t\<rparr> s =
     Inr (s\<lparr>errors := errors s @ [''Analysis failed: '' @ m], status := ''failed''\<rparr>)"
  by (simp add: ainvoke_def and_then_def analyze_raises create_plan_failed execute_tasks_failed)





lemma continue_workflow_found:
  assumes "find (\<lambda>d. doc_workflow_id d = w) (mongo st) = Some d"
      and "mongo_read_fault e = None" and "mongo_write_fault e = None" and "redis_fault e = None"
      and "ainvoke (pass e) (doc_state d) = Inr r"
  shows "continue_workflow e w st =
           (st\<lparr>mongo := update_first (\<lambda>d. doc_workflow_id d = w)
                           (\<lambda>d. d\<lparr>doc_state := r, updated_at := now_updated e\<rparr>) (mongo st),
               redis := AList.update w (r, redis_now e + 3600) (redis st)\<rparr>,
            Inr (''continued'', r))"
  using assms
  by (simp add: continue_workflow_def find_one_def update_one_def redis_setex_def Let_def)

section \<open>Facts about the store and the endpoints\<close>

lemma find_update_first:
  "find P xs = Some d \<Longrightarrow> P (f d) \<Longrightarrow> find P (update_first P f xs) = Some (f d)"
  by (induction xs) (auto split: if_splits)

lemma find_append_new:
  "find P xs = None \<Longrightarrow> P d \<Longrightarrow> find P (xs @ [d]) = Some d"
  by (induction xs) (auto split: if_splits)

lemma find_unknown:
  "w \<notin> set (map doc_workflow_id ds) \<Longrightarrow> find (\<lambda>d. doc_workflow_id d = w) ds = None"
  by (induction ds) auto

lemma start_workflow_redis_fault:
  assumes "redis_fault e = Some m"
  shows "start_workflow e request st = (st, Inl (HTTPException 500 (''Workflow failed: '' @ m)))"
proof -
  obtain r where "ainvoke (pass e) (initial_state e request) = Inr r"
    using ainvoke_total by blast
  then show ?thesis
    using assms by (simp add: start_workflow_def redis_setex_def Let_def)
qed

lemma start_workflow_mongo_fault:
  assumes "redis_fault e = None" and "mongo_write_fault e = Some m"
      and "ainvoke (pass e) (initial_state e request) = Inr r"
  shows "start_workflow e request st =
           (st\<lparr>redis := AList.update (make_workflow_id e request) (r, redis_now e + 3600)
                          (redis st)\<rparr>,
            Inl (HTTPException 500 (''Workflow failed: '' @ m)))"
  using assms by (simp add: start_workflow_def redis_setex_def insert_one_def Let_def)

lemma start_workflow_stored:
  assumes "redis_fault e = None" and "mongo_write_fault e = None"
      and "ainvoke (pass e) (initial_state e request) = Inr r"
  shows "start_workflow e request st =
           (st\<lparr>redis := AList.update (make_workflow_id e request) (r, redis_now e + 3600)
                          (redis st),
               mongo := mongo st @
                          [\<lparr>doc_oid = ObjectId (new_oid e),
                            doc_workflow_id = make_workflow_id e request,
                            doc_project_id = req_project_id request,
                            doc_state = r,
                            created_at = now_created e,
                            updated_at = now_updated e\<rparr>]\<rparr>,
            Inr \<lparr>resp_workflow_id = make_workflow_id e request,
                 resp_status = status r,
                 resp_state = r,
                 resp_next_steps = next_steps_for r\<rparr>)"
  using assms by (simp add: start_workflow_def redis_setex_def insert_one_def Let_def)

text \<open>What a successful start and a successful resume say about the store they leave.\<close>

lemma start_workflow_success:
  assumes "start_workflow e request st = (st', Inr resp)"
  shows "resp_workflow_id resp = make_workflow_id e request
         \<and> redis st' = AList.update (make_workflow_id e request)
                          (resp_state resp, redis_now e + 3600) (redis st)
         \<and> (\<exists>doc. mongo st' = mongo st @ [doc]
                \<and> doc_workflow_id doc = make_workflow_id e request
                \<and> doc_state doc = resp_state resp)"
proof -
  obtain r where r: "ainvoke (pass e) (initial_state e request) = Inr r"
    using ainvoke_total by blast
  show ?thesis
  proof (cases "redis_fault e")
    case (Some m)
    then show ?thesis using assms by (simp add: start_workflow_redis_fault)
  next
    case None
    show ?thesis
    proof (cases "mongo_write_fault e")
      case (Some m)
      then show ?thesis using assms None r by (simp add: start_workflow_mongo_fault)
    next
      case None': None
      have "start_workflow e request st = (st', Inr resp)" by (rule assms)
      then show ?thesis
        unfolding start_workflow_stored [OF None None' r] by auto
    qed
  qed
qed

lemma continue_workflow_success:
  assumes "continue_workflow e w st = (st', Inr (c, r))"
  shows "\<exists>d. find (\<lambda>d. doc_workflow_id d = w) (mongo st) = Some d
           \<and> mongo st' = update_first (\<lambda>d. doc_workflow_id d = w)
                            (\<lambda>d. d\<lparr>doc_state := r, updated_at := now_updated e\<rparr>) (mongo st)
           \<and> redis st' = AList.update w (r, redis_now e + 3600) (redis st)"
  using assms
  by (auto simp: continue_workflow_def find_one_def update_one_def redis_setex_def Let_def
           split: option.splits sum.splits)

lemma get_workflow_status_durable:
  assumes "redis_fault e = None" and "mongo_read_fault e = None"
      and "redis_get e w st = Inr None"
      and "find (\<lambda>d. doc_workflow_id d = w) (mongo st) = Some d"
  shows "get_workflow_status e w st = (st, Inr (doc_state d))"
  using assms by (simp add: get_workflow_status_def find_one_def Let_def)

lemma redis_get_expired:
  assumes "redis_fault e = None"
      and "map_of (redis st) w = Some (v, expires)" and "expires \<le> redis_now e"
  shows "redis_get e w st = Inr None"
  using assms by (simp add: redis_get_def)

lemma calm_faults:
  "redis_fault calm = None" "mongo_read_fault calm = None" "mongo_write_fault calm = None"
  by (simp_all add: calm_def)

lemma str_int_clock0: "str_int 1700000000 = ''1700000000''"
  by (simp add: str_int_def str_nat.simps)

lemma workflow_id_login: "make_workflow_id calm login_request = ''workflow_p1_1700000000''"
  by (simp add: make_workflow_id_def calm_def login_request_def clock0_def int_timestamp_def
        str_int_clock0)

section \<open>The claims\<close>

text \<open>
  C1.  The claim: invoked on a state whose status is \<open>failed\<close>, each of the three stages returns
  the state unchanged.  \<open>create_plan\<close> and \<open>execute_tasks\<close> start with that check
  (\<open>create_plan_failed\<close>, \<open>execute_tasks_failed\<close>); \<open>analyze_requirements\<close> has none.  On the
  failed state of \<open>failed_state\<close> it calls the language model again: when the model answers it
  writes the analysis, sets the status to \<open>analyzed\<close> and the phase to \<open>planning\<close>; when the
  model raises it appends a second message to \<open>errors\<close>.  The other two stages return the same
  state as it is.
\<close>

theorem analyze_requirements_ignores_failed_status:
  "status failed_state = ''failed''
   \<and> analyze_requirements (Responds ''{}'') failed_state =
       Inr (failed_state\<lparr>ctx := [(''analysis'', JObj (analysis_of ''Build a login page.''))],
                         status := ''analyzed'',
                         current_phase := ''planning''\<rparr>)
   \<and> analyze_requirements (Raises ''timeout'') failed_state =
       Inr (failed_state\<lparr>errors := [''Analysis failed: timeout'', ''Analysis failed: timeout'']\<rparr>)
   \<and> create_plan (Responds ''{}'') failed_state = Inr failed_state
   \<and> execute_tasks clock0 failed_state = Inr failed_state"
  by (simp add: analyze_responds analyze_raises create_plan_failed execute_tasks_failed
        failed_state_def)

text \<open>
  C5.  For the requirements \<open>Build a login page.\<close>, whatever else the request holds and
  whatever the two models answer, one pass of the graph over the initial state runs the three
  stages without raising; the status goes \<open>draft\<close>, \<open>analyzed\<close>, \<open>planned\<close>, \<open>executing\<close>; the
  analysis is in the context, its features the requirements split at the full stop; the plan
  stage leaves the five pending tasks, and the execute stage assigns the first two, to
  \<open>agent_1\<close> and \<open>agent_2\<close>, and leaves the other three pending.  On any list of tasks the
  execute loop assigns at most two.
\<close>

theorem login_page_pass:
  "\<exists>s1 s2 s3.
     analyze_requirements (Responds a)
       (initial_state e (request\<lparr>req_requirements := ''Build a login page.''\<rparr>)) = Inr s1
     \<and> create_plan (Responds p) s1 = Inr s2
     \<and> execute_tasks t s2 = Inr s3
     \<and> ainvoke \<lparr>analyzer = Responds a, planner = Responds p, exec_clock = t\<rparr>
         (initial_state e (request\<lparr>req_requirements := ''Build a login page.''\<rparr>)) = Inr s3
     \<and> status (initial_state e (request\<lparr>req_requirements := ''Build a login page.''\<rparr>)) = ''draft''
     \<and> status s1 = ''analyzed''
     \<and> status s2 = ''planned''
     \<and> status s3 = ''executing''
     \<and> map_of (ctx s1) ''analysis'' = Some (JObj (analysis_of ''Build a login page.''))
     \<and> map_of (ctx s3) ''analysis'' = Some (JObj (analysis_of ''Build a login page.''))
     \<and> map_of (analysis_of ''Build a login page.'') ''features''
         = Some (JList [JStr ''Build a login page'', JStr ''''])
     \<and> tasks s2 = planned_tasks
     \<and> tasks s3 = dispatched_tasks
     \<and> length (tasks s3) = 5
     \<and> map (\<lambda>task. map_of task ''status'') (tasks s3)
         = [Some (JStr ''assigned''), Some (JStr ''assigned''),
            Some (JStr ''pending''), Some (JStr ''pending''), Some (JStr ''pending'')]
     \<and> map (\<lambda>task. map_of task ''assigned_agent'') (tasks s3)
         = [Some (JStr ''agent_1''), Some (JStr ''agent_2''), None, None, None]
     \<and> map_of (ctx s3) ''execution''
         = Some (JObj [(''tasks_assigned'', JInt 2), (''agents_used'', JInt 2),
                       (''start_time'', JStr (isoformat t))])
     \<and> fst (assign_pending 0 ts) \<le> 2"
proof -
  define s0 where "s0 = initial_state e (request\<lparr>req_requirements := ''Build a login page.''\<rparr>)"
  define s1 where
    "s1 = s0\<lparr>ctx := AList.update ''analysis'' (JObj (analysis_of (requirements s0))) (ctx s0),
              status := ''analyzed'', current_phase := ''planning''\<rparr>"
  define s2 where
    "s2 = s1\<lparr>tasks := map sample_task [0 ..< 5],
              ctx := AList.update ''plan'' (JObj sample_plan) (ctx s1),
              status := ''planned'', current_phase := ''development''\<rparr>"
  define s3 where
    "s3 = s2\<lparr>tasks := dispatched_tasks,
              ctx := AList.update ''execution''
                       (JObj [(''tasks_assigned'', JInt 2), (''agents_used'', JInt 2),
                              (''start_time'', JStr (isoformat t))])
                       (ctx s2),
              status := ''executing'', current_phase := ''development''\<rparr>"
  have r0: "requirements s0 = ''Build a login page.''" "status s0 = ''draft''"
    by (simp_all add: s0_def initial_state_def)
  have 1: "analyze_requirements (Responds a) s0 = Inr s1"
    by (simp add: analyze_responds s1_def)
  have 2: "create_plan (Responds p) s1 = Inr s2"
    by (simp add: create_plan_responds s1_def s2_def)
  have 3: "execute_tasks t s2 = Inr s3"
    by (simp add: execute_tasks_def s2_def s3_def sample_tasks_value assign_planned_tasks)
  have 4: "ainvoke \<lparr>analyzer = Responds a, planner = Responds p, exec_clock = t\<rparr> s0 = Inr s3"
    by (simp add: ainvoke_def and_then_def 1 2 3)
  have a1: "map_of (ctx s1) ''analysis'' = Some (JObj (analysis_of ''Build a login page.''))"
    by (simp add: s1_def r0 update_conv')
  have a3: "map_of (ctx s3) ''analysis'' = Some (JObj (analysis_of ''Build a login page.''))"
    by (simp add: s3_def s2_def s1_def r0 update_conv')
  have f: "map_of (analysis_of ''Build a login page.'') ''features''
             = Some (JList [JStr ''Build a login page'', JStr ''''])"
    by (simp add: analysis_of_def)
  have t2: "tasks s2 = planned_tasks"
    by (simp add: s2_def sample_tasks_value)
  have t3: "tasks s3 = dispatched_tasks"
    by (simp add: s3_def)
  have l: "length dispatched_tasks = 5"
    by (simp add: dispatched_tasks_def)
  have st: "map (\<lambda>task. map_of task ''status'') dispatched_tasks
              = [Some (JStr ''assigned''), Some (JStr ''assigned''),
                 Some (JStr ''pending''), Some (JStr ''pending''), Some (JStr ''pending'')]"
    by (simp add: dispatched_tasks_def)
  have ag: "map (\<lambda>task. map_of task ''assigned_agent'') dispatched_tasks
              = [Some (JStr ''agent_1''), Some (JStr ''agent_2''), None, None, None]"
    by (simp add: dispatched_tasks_def)
  have ex: "map_of (ctx s3) ''execution''
              = Some (JObj [(''tasks_assigned'', JInt 2), (''agents_used'', JInt 2),
                            (''start_time'', JStr (isoformat t))])"
    by (simp add: s3_def update_conv')
  have sts: "status s1 = ''analyzed''" "status s2 = ''planned''" "status s3 = ''executing''"
    by (simp_all add: s1_def s2_def s3_def)
  show ?thesis
    unfolding s0_def [symmetric]
    using 1 2 3 4 r0(2) sts a1 a3 f t2 t3 l st ag ex assign_pending_bound [of ts]
    by (intro exI[of _ s1] exI[of _ s2] exI[of _ s3]) simp
qed



text \<open>
  C10.  Two runs of the analyze and plan stages, on any two states and with any answers of
  the language model: both runs leave the same five pending tasks \<open>task_1\<close> to \<open>task_5\<close> and
  the same plan (23 tasks in all, four phases).  The analysis of one run is the analysis of
  the other with its \<open>features\<close> replaced by the run's own requirements split at the full
  stops: nothing else in it depends on the input.
\<close>

theorem plan_independent_of_input:
  "\<exists>s1 s2 s1' s2'.
      analyze_requirements (Responds a) s = Inr s1
    \<and> create_plan (Responds p) s1 = Inr s2
    \<and> analyze_requirements (Responds a') s' = Inr s1'
    \<and> create_plan (Responds p') s1' = Inr s2'
    \<and> tasks s2 = tasks s2'
    \<and> map_of (ctx s2) ''plan'' = map_of (ctx s2') ''plan''
    \<and> tasks s2 = planned_tasks
    \<and> map_of (ctx s2) ''plan'' = Some (JObj sample_plan)
    \<and> map_of sample_plan ''total_tasks'' = Some (JInt 23)
    \<and> (\<exists>phases. map_of sample_plan ''phases'' = Some (JList phases) \<and> length phases = 4)
    \<and> length planned_tasks = 5
    \<and> map (\<lambda>task. map_of task ''id'') planned_tasks
        = [Some (JStr ''task_1''), Some (JStr ''task_2''), Some (JStr ''task_3''),
           Some (JStr ''task_4''), Some (JStr ''task_5'')]
    \<and> map (\<lambda>task. map_of task ''status'') planned_tasks = replicate 5 (Some (JStr ''pending''))
    \<and> map_of (ctx s2) ''analysis'' = Some (JObj (analysis_of (requirements s)))
    \<and> map_of (ctx s2') ''analysis'' = Some (JObj (analysis_of (requirements s')))
    \<and> analysis_of (requirements s)
        = AList.update ''features'' (JList (map JStr (split CHR ''.'' (requirements s))))
            (analysis_of (requirements s'))"
proof -
  define s1 where
    "s1 = s\<lparr>ctx := AList.update ''analysis'' (JObj (analysis_of (requirements s))) (ctx s),
              status := ''analyzed'', current_phase := ''planning''\<rparr>"
  define s2 where
    "s2 = s1\<lparr>tasks := map sample_task [0 ..< 5],
              ctx := AList.update ''plan'' (JObj sample_plan) (ctx s1),
              status := ''planned'', current_phase := ''development''\<rparr>"
  define s1' where
    "s1' = s'\<lparr>ctx := AList.update ''analysis'' (JObj (analysis_of (requirements s'))) (ctx s'),
              status := ''analyzed'', current_phase := ''planning''\<rparr>"
  define s2' where
    "s2' = s1'\<lparr>tasks := map sample_task [0 ..< 5],
              ctx := AList.update ''plan'' (JObj sample_plan) (ctx s1'),
              status := ''planned'', current_phase := ''development''\<rparr>"
  have 1: "analyze_requirements (Responds a) s = Inr s1"
    by (simp add: analyze_responds s1_def)
  have 2: "create_plan (Responds p) s1 = Inr s2"
    by (simp add: create_plan_responds s1_def s2_def)
  have 3: "analyze_requirements (Responds a') s' = Inr s1'"
    by (simp add: analyze_responds s1'_def)
  have 4: "create_plan (Responds p') s1' = Inr s2'"
    by (simp add: create_plan_responds s1'_def s2'_def)
  have t: "tasks s2 = planned_tasks" "tasks s2' = planned_tasks"
    by (simp_all add: s2_def s2'_def sample_tasks_value)
  have pl: "map_of (ctx s2) ''plan'' = Some (JObj sample_plan)"
           "map_of (ctx s2') ''plan'' = Some (JObj sample_plan)"
    by (simp_all add: s2_def s2'_def update_conv')
  have an: "map_of (ctx s2) ''analysis'' = Some (JObj (analysis_of (requirements s)))"
           "map_of (ctx s2') ''analysis'' = Some (JObj (analysis_of (requirements s')))"
    by (simp_all add: s2_def s2'_def s1_def s1'_def update_conv')
  have k: "map_of sample_plan ''total_tasks'' = Some (JInt 23)"
          "\<exists>phases. map_of sample_plan ''phases'' = Some (JList phases) \<and> length phases = 4"
    by (simp_all add: sample_plan_def)
  have pt: "length planned_tasks = 5"
     "map (\<lambda>task. map_of task ''id'') planned_tasks
        = [Some (JStr ''task_1''), Some (JStr ''task_2''), Some (JStr ''task_3''),
           Some (JStr ''task_4''), Some (JStr ''task_5'')]"
     "map (\<lambda>task. map_of task ''status'') planned_tasks = replicate 5 (Some (JStr ''pending''))"
    by (simp_all add: planned_tasks_def numeral_eq_Suc)
  have f: "analysis_of (requirements s)
        = AList.update ''features'' (JList (map JStr (split CHR ''.'' (requirements s))))
            (analysis_of (requirements s'))"
    by (simp add: analysis_of_def)
  show ?thesis
    using 1 2 3 4 t pl an k pt f
    by (intro exI[of _ s1] exI[of _ s2] exI[of _ s1'] exI[of _ s2']) simp
qed




text \<open>
  C2.  The claim: resuming a workflow whose stored status is \<open>failed\<close>, any number of times,
  changes neither \<open>tasks\<close> nor the context nor \<open>current_phase\<close>, and appends no repeated error
  message.  \<open>continue_workflow\<close> runs the whole graph on the stored state, and the analyze stage
  does not check for \<open>failed\<close>.  On the store that holds the failed workflow of
  \<open>failed_state\<close>: when the language model answers, one resume returns the state executing,
  with the five tasks, two of them assigned, and the phase \<open>development\<close>; when it raises
  \<open>timeout\<close> again, each resume appends the same message once more, so two resumes leave it
  three times in \<open>errors\<close>.
\<close>

theorem continue_workflow_reruns_failed_workflow:
  "(\<exists>st1 r1.
      continue_workflow calm ''workflow_p1_1700000000'' failed_store
        = (st1, Inr (''continued'', r1))
    \<and> status r1 = ''executing''
    \<and> tasks r1 = dispatched_tasks
    \<and> tasks r1 \<noteq> tasks failed_state
    \<and> ctx r1 \<noteq> ctx failed_state
    \<and> current_phase r1 = ''development''
    \<and> current_phase failed_state = ''analyzing'')
   \<and> (\<exists>st1 r1 st2 r2.
      continue_workflow analyzer_down ''workflow_p1_1700000000'' failed_store
        = (st1, Inr (''continued'', r1))
    \<and> continue_workflow analyzer_down ''workflow_p1_1700000000'' st1
        = (st2, Inr (''continued'', r2))
    \<and> errors failed_state = [''Analysis failed: timeout'']
    \<and> errors r1 = [''Analysis failed: timeout'', ''Analysis failed: timeout'']
    \<and> errors r2 = [''Analysis failed: timeout'', ''Analysis failed: timeout'',
                    ''Analysis failed: timeout''])"
proof -
  have f: "find (\<lambda>d. doc_workflow_id d = ''workflow_p1_1700000000'') (mongo failed_store)
             = Some (hd (mongo failed_store))"
    by (simp add: failed_store_def)
  have d: "doc_state (hd (mongo failed_store)) = failed_state"
    by (simp add: failed_store_def)
  have calm_ok: "mongo_read_fault calm = None" "mongo_write_fault calm = None"
                "redis_fault calm = None"
                "pass calm = \<lparr>analyzer = Responds ''{}'', planner = Responds ''{}'',
                              exec_clock = clock0\<rparr>"
    by (simp_all add: calm_def)
  have down_ok: "mongo_read_fault analyzer_down = None" "mongo_write_fault analyzer_down = None"
                "redis_fault analyzer_down = None"
                "pass analyzer_down = \<lparr>analyzer = Raises ''timeout'', planner = Responds ''{}'',
                              exec_clock = clock0\<rparr>"
    by (simp_all add: analyzer_down_def calm_def)
  define r0 where
    "r0 = failed_state
            \<lparr>tasks := dispatched_tasks,
             ctx := AList.update ''execution''
                      (JObj [(''tasks_assigned'', JInt 2), (''agents_used'', JInt 2),
                             (''start_time'', JStr (isoformat clock0))])
                      (AList.update ''plan'' (JObj sample_plan)
                         (AList.update ''analysis'' (JObj (analysis_of (requirements failed_state)))
                            (ctx failed_state))),
             status := ''executing'',
             current_phase := ''development''\<rparr>"
  have a0: "ainvoke (pass calm) (doc_state (hd (mongo failed_store))) = Inr r0"
    by (simp add: calm_ok(4) d ainvoke_responds r0_def)
  have c0: "\<exists>st1. continue_workflow calm ''workflow_p1_1700000000'' failed_store
              = (st1, Inr (''continued'', r0))"
    by (simp add: continue_workflow_found [OF f calm_ok(1,2,3) a0])
  have p0: "status r0 = ''executing''" "tasks r0 = dispatched_tasks"
           "current_phase r0 = ''development''" "current_phase failed_state = ''analyzing''"
    by (simp_all add: r0_def failed_state_def)
  have q0: "tasks r0 \<noteq> tasks failed_state"
    by (simp add: r0_def failed_state_def dispatched_tasks_def)
  have q1: "ctx r0 \<noteq> ctx failed_state"
    by (simp add: r0_def failed_state_def)
  have A: "\<exists>st1 r1.
      continue_workflow calm ''workflow_p1_1700000000'' failed_store
        = (st1, Inr (''continued'', r1))
    \<and> status r1 = ''executing''
    \<and> tasks r1 = dispatched_tasks
    \<and> tasks r1 \<noteq> tasks failed_state
    \<and> ctx r1 \<noteq> ctx failed_state
    \<and> current_phase r1 = ''development''
    \<and> current_phase failed_state = ''analyzing''"
    using c0 p0 q0 q1 by blast
  define r1 where "r1 = failed_state\<lparr>errors := errors failed_state @ [''Analysis failed: timeout'']\<rparr>"
  define st1 where
    "st1 = failed_store\<lparr>mongo := update_first (\<lambda>d. doc_workflow_id d = ''workflow_p1_1700000000'')
                           (\<lambda>d. d\<lparr>doc_state := r1, updated_at := now_updated analyzer_down\<rparr>)
                           (mongo failed_store),
               redis := AList.update ''workflow_p1_1700000000'' (r1, redis_now analyzer_down + 3600)
                          (redis failed_store)\<rparr>"
  have r1: "ainvoke (pass analyzer_down) (doc_state (hd (mongo failed_store))) = Inr r1"
    by (simp add: down_ok(4) d ainvoke_analyzer_raises r1_def failed_state_def)
  have c1: "continue_workflow analyzer_down ''workflow_p1_1700000000'' failed_store
              = (st1, Inr (''continued'', r1))"
    by (simp add: continue_workflow_found [OF f down_ok(1,2,3) r1] st1_def)
  define d1 where "d1 = (hd (mongo failed_store))\<lparr>doc_state := r1, updated_at := now_updated analyzer_down\<rparr>"
  have f1: "find (\<lambda>d. doc_workflow_id d = ''workflow_p1_1700000000'') (mongo st1) = Some d1"
    by (simp add: st1_def failed_store_def d1_def)
  define r2 where "r2 = r1\<lparr>errors := errors r1 @ [''Analysis failed: timeout'']\<rparr>"
  have r2: "ainvoke (pass analyzer_down) (doc_state d1) = Inr r2"
    by (simp add: down_ok(4) d1_def ainvoke_analyzer_raises r2_def r1_def failed_state_def)
  have c2: "\<exists>st2. continue_workflow analyzer_down ''workflow_p1_1700000000'' st1
              = (st2, Inr (''continued'', r2))"
    by (simp add: continue_workflow_found [OF f1 down_ok(1,2,3) r2])
  have e: "errors failed_state = [''Analysis failed: timeout'']"
     "errors r1 = [''Analysis failed: timeout'', ''Analysis failed: timeout'']"
     "errors r2 = [''Analysis failed: timeout'', ''Analysis failed: timeout'',
                    ''Analysis failed: timeout'']"
    by (simp_all add: r2_def r1_def failed_state_def)
  from c2 obtain st2 where c2': "continue_workflow analyzer_down ''workflow_p1_1700000000'' st1
              = (st2, Inr (''continued'', r2))" by blast
  have B: "\<exists>st1 r1 st2 r2.
      continue_workflow analyzer_down ''workflow_p1_1700000000'' failed_store
        = (st1, Inr (''continued'', r1))
    \<and> continue_workflow analyzer_down ''workflow_p1_1700000000'' st1
        = (st2, Inr (''continued'', r2))
    \<and> errors failed_state = [''Analysis failed: timeout'']
    \<and> errors r1 = [''Analysis failed: timeout'', ''Analysis failed: timeout'']
    \<and> errors r2 = [''Analysis failed: timeout'', ''Analysis failed: timeout'',
                    ''Analysis failed: timeout'']"
    using c1 c2' e by blast
  show ?thesis using A B by blast
qed

text \<open>
  C4.  The claim: after a start run, a failed write to the durable tier is fatal, a failed
  write to the fast tier is swallowed and the start still succeeds.  As amended: both are
  fatal.  \<open>start_workflow\<close> writes the fast tier first, inside the same \<open>try\<close> as everything
  else: when that write raises, the start answers 500 and the durable tier is not written;
  when the fast tier took the value and the durable write raises, the start answers 500 and
  the fast tier keeps the entry; when both writes work the start answers with the workflow.
\<close>

theorem start_workflow_write_failures:
  "(redis_fault e = Some m \<longrightarrow>
      start_workflow e request st = (st, Inl (HTTPException 500 (''Workflow failed: '' @ m))))
   \<and> (redis_fault e = None \<and> mongo_write_fault e = Some m \<longrightarrow>
        (\<exists>st1. start_workflow e request st
                  = (st1, Inl (HTTPException 500 (''Workflow failed: '' @ m)))
             \<and> mongo st1 = mongo st
             \<and> map_of (redis st1) (make_workflow_id e request) \<noteq> None))
   \<and> (redis_fault e = None \<and> mongo_write_fault e = None \<longrightarrow>
        (\<exists>st2 resp. start_workflow e request st = (st2, Inr resp)
             \<and> resp_workflow_id resp = make_workflow_id e request
             \<and> map_of (redis st2) (make_workflow_id e request)
                 = Some (resp_state resp, redis_now e + 3600)
             \<and> length (mongo st2) = length (mongo st) + 1))"
proof -
  obtain r where r: "ainvoke (pass e) (initial_state e request) = Inr r"
    using ainvoke_total by blast
  have A: "start_workflow e request st = (st, Inl (HTTPException 500 (''Workflow failed: '' @ m)))"
    if "redis_fault e = Some m"
    using that by (rule start_workflow_redis_fault)
  have B: "\<exists>st1. start_workflow e request st
                  = (st1, Inl (HTTPException 500 (''Workflow failed: '' @ m)))
             \<and> mongo st1 = mongo st
             \<and> map_of (redis st1) (make_workflow_id e request) \<noteq> None"
    if "redis_fault e = None" "mongo_write_fault e = Some m"
    by (simp add: start_workflow_mongo_fault [OF that r] update_conv')
  have C: "\<exists>st2 resp. start_workflow e request st = (st2, Inr resp)
             \<and> resp_workflow_id resp = make_workflow_id e request
             \<and> map_of (redis st2) (make_workflow_id e request)
                 = Some (resp_state resp, redis_now e + 3600)
             \<and> length (mongo st2) = length (mongo st) + 1"
    if "redis_fault e = None" "mongo_write_fault e = None"
    by (simp add: start_workflow_stored [OF that r] update_conv')
  show ?thesis using A B C by blast
qed

theorem start_workflow_write_failures_witness:
  "start_workflow (calm\<lparr>redis_fault := Some ''Connection refused''\<rparr>) login_request empty_store
     = (empty_store, Inl (HTTPException 500 ''Workflow failed: Connection refused''))
   \<and> (\<exists>st1. start_workflow (calm\<lparr>mongo_write_fault := Some ''No servers found''\<rparr>)
               login_request empty_store
               = (st1, Inl (HTTPException 500 ''Workflow failed: No servers found''))
            \<and> mongo st1 = mongo empty_store)
   \<and> (\<exists>st2 resp. start_workflow calm login_request empty_store = (st2, Inr resp)
            \<and> length (mongo st2) = length (mongo empty_store) + 1)"
proof -
  have 1: "redis_fault (calm\<lparr>redis_fault := Some ''Connection refused''\<rparr>)
             = Some ''Connection refused''"
    by simp
  have 2: "redis_fault (calm\<lparr>mongo_write_fault := Some ''No servers found''\<rparr>) = None"
          "mongo_write_fault (calm\<lparr>mongo_write_fault := Some ''No servers found''\<rparr>)
               = Some ''No servers found''"
    by (simp_all add: calm_faults)
  have A: "start_workflow (calm\<lparr>redis_fault := Some ''Connection refused''\<rparr>)
             login_request empty_store
           = (empty_store, Inl (HTTPException 500 ''Workflow failed: Connection refused''))"
    using start_workflow_write_failures
            [of "calm\<lparr>redis_fault := Some ''Connection refused''\<rparr>" "''Connection refused''"
                login_request empty_store] 1
    by simp
  have B: "\<exists>st1. start_workflow (calm\<lparr>mongo_write_fault := Some ''No servers found''\<rparr>)
               login_request empty_store
               = (st1, Inl (HTTPException 500 ''Workflow failed: No servers found''))
            \<and> mongo st1 = mongo empty_store"
    using start_workflow_write_failures
            [of "calm\<lparr>mongo_write_fault := Some ''No servers found''\<rparr>" "''No servers found''"
                login_request empty_store] 2
    by auto
  have C: "\<exists>st2 resp. start_workflow calm login_request empty_store = (st2, Inr resp)
            \<and> length (mongo st2) = length (mongo empty_store) + 1"
    using start_workflow_write_failures [of calm "''x''" login_request empty_store] calm_faults
    by auto
  show ?thesis using A B C by blast
qed

theorem start_workflow_fast_tier_failure_is_fatal:
  "mongo_write_fault (calm\<lparr>redis_fault := Some ''Connection refused''\<rparr>) = None
   \<and> start_workflow (calm\<lparr>redis_fault := Some ''Connection refused''\<rparr>) login_request empty_store
       = (empty_store, Inl (HTTPException 500 ''Workflow failed: Connection refused''))
   \<and> \<not> (\<exists>resp. snd (start_workflow (calm\<lparr>redis_fault := Some ''Connection refused''\<rparr>)
                        login_request empty_store) = Inr resp)"
  by (simp add: start_workflow_redis_fault [of _ "''Connection refused''"] calm_faults)

text \<open>
  C9.  Resuming a workflow id that no record of the durable tier carries leaves both tiers
  as they were, and, the durable tier being readable, fails with 404 \<open>Workflow not found\<close>.
\<close>

theorem continue_workflow_unknown_id:
  assumes "w \<notin> set (map doc_workflow_id (mongo st))"
  shows "fst (continue_workflow e w st) = st
         \<and> (mongo_read_fault e = None \<longrightarrow>
              continue_workflow e w st = (st, Inl (HTTPException 404 ''Workflow not found'')))"
  using find_unknown [OF assms]
  by (simp add: continue_workflow_def find_one_def Let_def split: option.splits)

theorem continue_workflow_unknown_id_witness:
  "''workflow_p9_1700000000'' \<notin> set (map doc_workflow_id (mongo two_store))
   \<and> continue_workflow calm ''workflow_p9_1700000000'' two_store
       = (two_store, Inl (HTTPException 404 ''Workflow not found''))"
  using continue_workflow_unknown_id [of "''workflow_p9_1700000000''" two_store calm]
  by (simp add: two_store_def calm_faults)

end
